theory Spec2Isabelle
  imports Main "HOL-Library.AList"
begin

section \<open>Values read from a row and request fields\<close>

text \<open>
  The handlers read two properties of a user row that hold numbers:
  \<^verbatim>\<open>user.is_locked\<close> and \<^verbatim>\<open>user.failed_attempts\<close>. A property of the row object is
  \<^verbatim>\<open>undefined\<close> when the table has no such column, \<^verbatim>\<open>null\<close> for an SQL NULL, and a
  number otherwise. Numbers are modelled as unbounded integers.
\<close>

datatype jsval = Undefined | Null | Num int

text \<open>\<^verbatim>\<open>v || 0\<close> for such a value: \<^verbatim>\<open>undefined\<close>, \<^verbatim>\<open>null\<close> and \<^verbatim>\<open>0\<close> are falsy.\<close>

fun or_zero :: "jsval \<Rightarrow> int" where
  "or_zero (Num n) = (if n = 0 then 0 else n)"
| "or_zero Undefined = 0"
| "or_zero Null = 0"

text \<open>
  A field of a JSON request body is a string or is missing (\<open>None\<close>); other JSON types
  are not modelled. \<^verbatim>\<open>!field\<close> holds for a missing field and for the empty string.
\<close>

type_synonym field = "string option"

fun present :: "field \<Rightarrow> bool" where
  "present None = False"
| "present (Some s) = (s \<noteq> [])"

text \<open>Decimal rendering of an integer, as a template literal renders a number.\<close>

definition digit :: "nat \<Rightarrow> char" where
  "digit n = (case drop n ''0123456789'' of c # rest \<Rightarrow> c | [] \<Rightarrow> CHR ''9'')"

function show_nat :: "nat \<Rightarrow> string" where
  "show_nat n = (if n < 10 then [digit n] else show_nat (n div 10) @ [digit (n mod 10)])"
  by pat_completeness auto
termination
  by (relation "measure id") auto

declare show_nat.simps [simp del]

definition show_int :: "int \<Rightarrow> string" where
  "show_int i = (if i < 0 then CHR ''-'' # show_nat (nat (- i)) else show_nat (nat i))"


section \<open>The database\<close>

text \<open>
  \<^verbatim>\<open>database.js\<close> creates three tables with \<^verbatim>\<open>CREATE TABLE IF NOT EXISTS\<close>. A row of
  \<^verbatim>\<open>users\<close> has the five declared columns. Since an existing table is left as it is, the
  \<^verbatim>\<open>users\<close> table of the database file may carry further columns; they are modelled as
  nullable integer columns (\<open>users_extra\<close>: name and default value), and a row stores
  their values in \<open>u_extra\<close>.
\<close>

record user_row =
  u_id :: int
  u_username :: string
  u_email :: string
  u_password :: string
  u_created_at :: nat
  u_extra :: "(string \<times> int option) list"

record device_row =
  d_id :: int
  d_user_id :: int
  d_device_name :: string
  d_device_type :: string
  d_device_id :: string
  d_status :: string
  d_created_at :: nat

text \<open>
  The three readings are the texts that \<^verbatim>\<open>toFixed(2)\<close> produces; the floating-point values
  behind them are not modelled.
\<close>

record sensor_row =
  s_id :: int
  s_device_id :: string
  s_temperature :: string
  s_humidity :: string
  s_pressure :: string
  s_timestamp :: nat

record db =
  users_extra :: "(string \<times> int option) list"
  users :: "user_row list"
  users_seq :: int
  devices :: "device_row list"
  devices_seq :: int
  sensor_data :: "sensor_row list"
  sensor_data_seq :: int

text \<open>
  The database that the \<^verbatim>\<open>db.serialize\<close> block of \<^verbatim>\<open>database.js\<close> creates in a new file:
  the \<^verbatim>\<open>users\<close> table has the columns \<^verbatim>\<open>id, username, email, password, created_at\<close>
  and no other.
\<close>

definition fresh_db :: db where
  "fresh_db = \<lparr>users_extra = [], users = [], users_seq = 0,
     devices = [], devices_seq = 0, sensor_data = [], sensor_data_seq = 0\<rparr>"

datatype sql_error = NoSuchColumn | UniqueConstraint | DatatypeMismatch

text \<open>\<^verbatim>\<open>AUTOINCREMENT\<close>: one more than the largest id ever used in the table.\<close>

definition next_id :: "int \<Rightarrow> int list \<Rightarrow> int" where
  "next_id seq ids = fold max ids seq + 1"

text \<open>The property \<open>c\<close> of the row object that \<^verbatim>\<open>SELECT *\<close> yields, for a column beyond the
  five declared ones.\<close>

definition user_prop :: "db \<Rightarrow> user_row \<Rightarrow> string \<Rightarrow> jsval" where
  "user_prop d u c =
     (if c \<in> set (map fst (users_extra d))
      then (case map_of (u_extra u) c of Some (Some n) \<Rightarrow> Num n | Some None \<Rightarrow> Null | None \<Rightarrow> Null)
      else Undefined)"

text \<open>\<^verbatim>\<open>SELECT * FROM users WHERE email = ?\<close> through \<^verbatim>\<open>db.get\<close>: the first matching row.\<close>

definition find_user_by_email :: "db \<Rightarrow> string \<Rightarrow> user_row option" where
  "find_user_by_email d e = find (\<lambda>u. u_email u = e) (users d)"

text \<open>
  \<^verbatim>\<open>UPDATE users SET c1 = v1, ... WHERE id = ?\<close>. The statement is an SQL error, and changes
  nothing, when the table lacks one of the columns.
\<close>

definition assign :: "(string \<times> int option) list \<Rightarrow> user_row \<Rightarrow> user_row" where
  "assign sets u = u\<lparr>u_extra := fold (\<lambda>cv m. AList.update (fst cv) (snd cv) m) sets (u_extra u)\<rparr>"

definition update_users :: "db \<Rightarrow> (string \<times> int option) list \<Rightarrow> int \<Rightarrow> sql_error + db" where
  "update_users d sets uid =
     (if list_all (\<lambda>c. c \<in> set (map fst (users_extra d))) (map fst sets)
      then Inr (d\<lparr>users := map (\<lambda>u. if u_id u = uid then assign sets u else u) (users d)\<rparr>)
      else Inl NoSuchColumn)"

text \<open>
  \<^verbatim>\<open>db.run\<close> with a callback that only logs the error (\<^verbatim>\<open>console.error\<close>): a failed
  statement leaves the database as it was and does not reach the response.
\<close>

definition run_logged :: "db \<Rightarrow> sql_error + db \<Rightarrow> db" where
  "run_logged d r = (case r of Inl err \<Rightarrow> d | Inr d' \<Rightarrow> d')"

text \<open>\<^verbatim>\<open>INSERT INTO users (username, email, password) VALUES (?, ?, ?)\<close>; both
  \<^verbatim>\<open>username\<close> and \<^verbatim>\<open>email\<close> are \<^verbatim>\<open>UNIQUE\<close>. The result carries \<^verbatim>\<open>this.lastID\<close>.\<close>

definition insert_user :: "db \<Rightarrow> string \<Rightarrow> string \<Rightarrow> string \<Rightarrow> nat \<Rightarrow> sql_error + (db \<times> int)" where
  "insert_user d username email hashed now =
     (if username \<in> set (map u_username (users d)) \<or> email \<in> set (map u_email (users d))
      then Inl UniqueConstraint
      else (let lastID = next_id (users_seq d) (map u_id (users d))
            in Inr (d\<lparr>users := users d @
                        [\<lparr>u_id = lastID, u_username = username, u_email = email,
                          u_password = hashed, u_created_at = now, u_extra = users_extra d\<rparr>],
                      users_seq := lastID\<rparr>, lastID)))"

text \<open>
  \<^verbatim>\<open>INSERT INTO devices (user_id, device_name, device_type, device_id, status)\<close>;
  \<^verbatim>\<open>device_id\<close> is \<^verbatim>\<open>UNIQUE\<close>. SQLite enforces a \<^verbatim>\<open>FOREIGN KEY\<close> clause only after
  \<^verbatim>\<open>PRAGMA foreign_keys = ON\<close>, which this code never issues, so no insert or delete is
  refused for a missing or dangling reference.
\<close>

definition insert_device ::
  "db \<Rightarrow> int \<Rightarrow> string \<Rightarrow> string \<Rightarrow> string \<Rightarrow> string \<Rightarrow> nat \<Rightarrow> sql_error + (db \<times> int)" where
  "insert_device d uid name type device_id status now =
     (if device_id \<in> set (map d_device_id (devices d))
      then Inl UniqueConstraint
      else (let lastID = next_id (devices_seq d) (map d_id (devices d))
            in Inr (d\<lparr>devices := devices d @
                        [\<lparr>d_id = lastID, d_user_id = uid, d_device_name = name,
                          d_device_type = type, d_device_id = device_id, d_status = status,
                          d_created_at = now\<rparr>],
                      devices_seq := lastID\<rparr>, lastID)))"

text \<open>
  The text of a URL or query parameter that SQLite compares with, or uses as, an integer:
  \<open>IntText n\<close> is a text that SQLite reads as the integer \<open>n\<close>, \<open>OtherText s\<close> is any
  other text \<open>s\<close> (possibly empty).
\<close>

datatype param = IntText int | OtherText string

fun id_matches :: "param \<Rightarrow> int \<Rightarrow> bool" where
  "id_matches (IntText n) i = (n = i)"
| "id_matches (OtherText s) i = False"

text \<open>\<^verbatim>\<open>DELETE FROM devices WHERE id = ? AND user_id = ?\<close>; the result carries
  \<^verbatim>\<open>this.changes\<close>.\<close>

definition delete_device :: "db \<Rightarrow> param \<Rightarrow> int \<Rightarrow> db \<times> nat" where
  "delete_device d p uid =
     (d\<lparr>devices := filter (\<lambda>r. \<not> (id_matches p (d_id r) \<and> d_user_id r = uid)) (devices d)\<rparr>,
      length (filter (\<lambda>r. id_matches p (d_id r) \<and> d_user_id r = uid) (devices d)))"

text \<open>\<^verbatim>\<open>SELECT * FROM devices WHERE device_id = ? AND user_id = ?\<close> through \<^verbatim>\<open>db.get\<close>.\<close>

definition find_device :: "db \<Rightarrow> string \<Rightarrow> int \<Rightarrow> device_row option" where
  "find_device d device_id uid =
     find (\<lambda>r. d_device_id r = device_id \<and> d_user_id r = uid) (devices d)"

text \<open>
  \<^verbatim>\<open>SELECT * FROM sensor_data WHERE device_id = ? ORDER BY timestamp DESC LIMIT ?\<close>.
  A negative limit means no limit; a limit that is not an integer is an SQL error. The
  order among rows of equal timestamp is not fixed by SQL; here it is insertion order.
\<close>

definition select_sensor_data :: "db \<Rightarrow> string \<Rightarrow> param \<Rightarrow> sql_error + sensor_row list" where
  "select_sensor_data d device_id lim =
     (let rows = sort_key (\<lambda>r. - int (s_timestamp r))
                   (filter (\<lambda>r. s_device_id r = device_id) (sensor_data d))
      in case lim of
           OtherText s \<Rightarrow> Inl DatatypeMismatch
         | IntText n \<Rightarrow> Inr (if n < 0 then rows else take (nat n) rows))"

text \<open>\<^verbatim>\<open>INSERT INTO sensor_data (device_id, temperature, humidity, pressure)\<close>: no
  constraint of the table can refuse it.\<close>

definition insert_sensor_data :: "db \<Rightarrow> string \<Rightarrow> string \<Rightarrow> string \<Rightarrow> string \<Rightarrow> nat \<Rightarrow> sql_error + db" where
  "insert_sensor_data d device_id temperature humidity pressure now =
     (let lastID = next_id (sensor_data_seq d) (map s_id (sensor_data d))
      in Inr (d\<lparr>sensor_data := sensor_data d @
                  [\<lparr>s_id = lastID, s_device_id = device_id, s_temperature = temperature,
                    s_humidity = humidity, s_pressure = pressure, s_timestamp = now\<rparr>],
                sensor_data_seq := lastID\<rparr>))"


section \<open>Session tokens\<close>

text \<open>
  The payload that \<^verbatim>\<open>jwt.sign\<close> receives is \<^verbatim>\<open>{ id, username }\<close>; the library adds the
  issue time and the expiry, in seconds.
\<close>

record claims =
  c_id :: int
  c_username :: string
  c_iat :: nat
  c_exp :: nat

text \<open>
  What travels as a token text: \<open>Signed c k\<close> is the serialisation of the claims \<open>c\<close>
  signed under the key \<open>k\<close>; \<open>Opaque s\<close> is any text \<open>s\<close> that is not the serialisation
  of a token (the empty text among them).
\<close>

datatype token = Signed claims string | Opaque string

datatype jwt_error = MALFORMED | INVALID_SIGNATURE | EXPIRED

text \<open>
  Modelled from the spec: \<^verbatim>\<open>jwt.sign\<close> of the \<^verbatim>\<open>jsonwebtoken\<close> library, which is not
  part of the sources. Section 4.3: issuing produces a signed token embedding the identity
  and an expiry the configured lifetime after issuance, using the secret key.
\<close>

definition jwt_sign :: "int \<Rightarrow> string \<Rightarrow> string \<Rightarrow> nat \<Rightarrow> nat \<Rightarrow> token" where
  "jwt_sign ident username secret expiresIn now =
     Signed \<lparr>c_id = ident, c_username = username, c_iat = now, c_exp = now + expiresIn\<rparr> secret"

text \<open>
  Modelled from the spec: \<^verbatim>\<open>jwt.verify\<close> of the \<^verbatim>\<open>jsonwebtoken\<close> library, which is not
  part of the sources. Section 4.3: verifying fails with \<open>MALFORMED\<close> if the token cannot
  be parsed, \<open>INVALID_SIGNATURE\<close> if the signature does not match, \<open>EXPIRED\<close> if past
  expiry, and yields the identity otherwise. Signatures are ideal: a signature matches
  exactly when the token was signed under the verifying key. A token counts as past expiry
  from the second of its expiry on.
\<close>

fun jwt_verify :: "token \<Rightarrow> string \<Rightarrow> nat \<Rightarrow> jwt_error + claims" where
  "jwt_verify (Opaque s) secret now = Inl MALFORMED"
| "jwt_verify (Signed c k) secret now =
     (if k \<noteq> secret then Inl INVALID_SIGNATURE
      else if c_exp c \<le> now then Inl EXPIRED
      else Inr c)"

text \<open>\<^verbatim>\<open>expiresIn: '24h'\<close>, in seconds.\<close>

definition expires_24h :: nat where
  "expires_24h = 24 * 60 * 60"

section \<open>Responses\<close>

datatype body =
    Error string
  | Message string
  | Auth string token int string string
  | Me "(int \<times> string \<times> string) option"
  | DeviceList "device_row list"
  | DeviceAdded string int string string string string
  | SensorRows "sensor_row list"
  | Generated string string string

text \<open>\<open>Resp status body\<close> is \<^verbatim>\<open>res.status(status).json(body)\<close>; \<^verbatim>\<open>res.json\<close> alone
  answers with status 200.\<close>

datatype response = Resp nat body

section \<open>The middleware \<^verbatim>\<open>authenticateToken\<close>\<close>

text \<open>
  The \<^verbatim>\<open>Authorization\<close> header is modelled by the list of its pieces between spaces,
  which is what \<^verbatim>\<open>authHeader.split(' ')\<close> returns; \<open>None\<close> is a request without the
  header. The token is the piece at index 1, and \<^verbatim>\<open>!token\<close> holds when there is no such
  piece or when it is the empty text.
\<close>

type_synonym auth_header = "token list option"

fun second_piece :: "auth_header \<Rightarrow> token option" where
  "second_piece None = None"
| "second_piece (Some []) = None"
| "second_piece (Some [a]) = None"
| "second_piece (Some (a # t # rest)) = (if t = Opaque [] then None else Some t)"

definition authenticateToken :: "string \<Rightarrow> nat \<Rightarrow> auth_header \<Rightarrow> response + claims" where
  "authenticateToken secret now authHeader =
     (case second_piece authHeader of
        None \<Rightarrow> Inl (Resp 401 (Error ''Access token required''))
      | Some token \<Rightarrow>
          (case jwt_verify token secret now of
             Inl err \<Rightarrow> Inl (Resp 403 (Error ''Invalid or expired token''))
           | Inr user \<Rightarrow> Inr user))"

section \<open>Authentication routes\<close>

record register_body =
  rb_username :: field
  rb_email :: field
  rb_password :: field

text \<open>
  \<^verbatim>\<open>POST /api/auth/register\<close>. \<open>bcrypt_hash\<close> stands for \<^verbatim>\<open>bcrypt.hash(password, 10)\<close>
  of this call (the salt is chosen inside); \<open>None\<close> is a rejected promise, caught by the
  handler.
\<close>

definition post_auth_register ::
  "(string \<Rightarrow> string option) \<Rightarrow> string \<Rightarrow> nat \<Rightarrow> db \<Rightarrow> register_body \<Rightarrow> db \<times> response" where
  "post_auth_register bcrypt_hash secret now d b =
     (if present (rb_username b) \<and> present (rb_email b) \<and> present (rb_password b)
      then (case (rb_username b, rb_email b, rb_password b) of
              (Some username, Some email, Some password) \<Rightarrow>
                (case bcrypt_hash password of
                   None \<Rightarrow> (d, Resp 500 (Error ''Server error''))
                 | Some hashedPassword \<Rightarrow>
                     (case insert_user d username email hashedPassword now of
                        Inl err \<Rightarrow>
                          (if err = UniqueConstraint
                           then (d, Resp 409 (Error ''Username or email already exists''))
                           else (d, Resp 500 (Error ''Error creating user'')))
                      | Inr (d', lastID) \<Rightarrow>
                          (d', Resp 201 (Auth ''User created successfully''
                                 (jwt_sign lastID username secret expires_24h now)
                                 lastID username email))))
            | _ \<Rightarrow> (d, Resp 400 (Error ''All fields are required'')))
      else (d, Resp 400 (Error ''All fields are required'')))"

record login_body =
  lb_email :: field
  lb_password :: field

text \<open>The branch of the login handler for a wrong password
  (\<^verbatim>\<open>if (!validPassword) { ... }\<close>).\<close>

definition wrong_password :: "db \<Rightarrow> user_row \<Rightarrow> db \<times> response" where
  "wrong_password d user =
     (let newAttempts = or_zero (user_prop d user ''failed_attempts'') + 1
      in if newAttempts \<ge> 3
         then (run_logged d (update_users d
                 [(''failed_attempts'', Some newAttempts), (''is_locked'', Some 1)] (u_id user)),
               Resp 403 (Error ''Account locked after 3 failed attempts.''))
         else (run_logged d (update_users d
                 [(''failed_attempts'', Some newAttempts)] (u_id user)),
               Resp 401 (Error (''Invalid credentials. '' @ show_int (3 - newAttempts)
                                @ '' attempts left.''))))"

text \<open>The rest of the handler, for a correct password.\<close>

definition correct_password :: "string \<Rightarrow> nat \<Rightarrow> db \<Rightarrow> user_row \<Rightarrow> db \<times> response" where
  "correct_password secret now d user =
     (run_logged d (update_users d [(''failed_attempts'', Some 0)] (u_id user)),
      Resp 200 (Auth ''Login successful''
        (jwt_sign (u_id user) (u_username user) secret expires_24h now)
        (u_id user) (u_username user) (u_email user)))"

text \<open>
  \<^verbatim>\<open>POST /api/auth/login\<close>. \<open>bcrypt_compare password hash\<close> stands for
  \<^verbatim>\<open>bcrypt.compare\<close>; \<open>None\<close> is a rejected promise, caught by the handler.
\<close>

definition post_auth_login ::
  "(string \<Rightarrow> string \<Rightarrow> bool option) \<Rightarrow> string \<Rightarrow> nat \<Rightarrow> db \<Rightarrow> login_body \<Rightarrow> db \<times> response" where
  "post_auth_login bcrypt_compare secret now d b =
     (if present (lb_email b) \<and> present (lb_password b)
      then (case (lb_email b, lb_password b) of
              (Some email, Some password) \<Rightarrow>
                (case find_user_by_email d email of
                   None \<Rightarrow> (d, Resp 401 (Error ''Invalid credentials''))
                 | Some user \<Rightarrow>
                     (if user_prop d user ''is_locked'' = Num 1
                      then (d, Resp 403 (Error ''Account locked due to too many failed attempts.''))
                      else (case bcrypt_compare password (u_password user) of
                              None \<Rightarrow> (d, Resp 500 (Error ''Server error''))
                            | Some validPassword \<Rightarrow>
                                (if validPassword then correct_password secret now d user
                                 else wrong_password d user))))
            | _ \<Rightarrow> (d, Resp 400 (Error ''Email and password required'')))
      else (d, Resp 400 (Error ''Email and password required'')))"

text \<open>\<^verbatim>\<open>GET /api/auth/me\<close>.\<close>

definition get_auth_me :: "string \<Rightarrow> nat \<Rightarrow> db \<Rightarrow> auth_header \<Rightarrow> response" where
  "get_auth_me secret now d h =
     (case authenticateToken secret now h of
        Inl rejected \<Rightarrow> rejected
      | Inr user \<Rightarrow>
          Resp 200 (Me (map_option (\<lambda>u. (u_id u, u_username u, u_email u))
                          (find (\<lambda>u. u_id u = c_id user) (users d)))))"


section \<open>Device routes\<close>

text \<open>\<^verbatim>\<open>GET /api/devices\<close>: \<^verbatim>\<open>SELECT * FROM devices WHERE user_id = ?\<close>.\<close>

definition get_devices :: "string \<Rightarrow> nat \<Rightarrow> db \<Rightarrow> auth_header \<Rightarrow> response" where
  "get_devices secret now d h =
     (case authenticateToken secret now h of
        Inl rejected \<Rightarrow> rejected
      | Inr user \<Rightarrow> Resp 200 (DeviceList (filter (\<lambda>r. d_user_id r = c_id user) (devices d))))"

record device_body =
  db_device_name :: field
  db_device_type :: field
  db_device_id :: field

text \<open>\<^verbatim>\<open>POST /api/devices\<close>.\<close>

definition post_devices ::
  "string \<Rightarrow> nat \<Rightarrow> db \<Rightarrow> auth_header \<Rightarrow> device_body \<Rightarrow> db \<times> response" where
  "post_devices secret now d h b =
     (case authenticateToken secret now h of
        Inl rejected \<Rightarrow> (d, rejected)
      | Inr user \<Rightarrow>
          (if present (db_device_name b) \<and> present (db_device_type b) \<and> present (db_device_id b)
           then (case (db_device_name b, db_device_type b, db_device_id b) of
                   (Some device_name, Some device_type, Some device_id) \<Rightarrow>
                     (case insert_device d (c_id user) device_name device_type device_id
                             ''online'' now of
                        Inl err \<Rightarrow>
                          (if err = UniqueConstraint
                           then (d, Resp 409 (Error ''Device ID already exists''))
                           else (d, Resp 500 (Error ''Error adding device'')))
                      | Inr (d', lastID) \<Rightarrow>
                          (d', Resp 201 (DeviceAdded ''Device added successfully''
                                 lastID device_name device_type device_id ''online'')))
                 | _ \<Rightarrow> (d, Resp 400 (Error ''All fields are required'')))
           else (d, Resp 400 (Error ''All fields are required''))))"

text \<open>\<^verbatim>\<open>DELETE /api/devices/:id\<close>.\<close>

definition delete_devices_id ::
  "string \<Rightarrow> nat \<Rightarrow> db \<Rightarrow> auth_header \<Rightarrow> param \<Rightarrow> db \<times> response" where
  "delete_devices_id secret now d h deviceId =
     (case authenticateToken secret now h of
        Inl rejected \<Rightarrow> (d, rejected)
      | Inr user \<Rightarrow>
          (case delete_device d deviceId (c_id user) of
             (d', changes) \<Rightarrow>
               (if changes = 0 then (d', Resp 404 (Error ''Device not found''))
                else (d', Resp 200 (Message ''Device deleted successfully'')))))"

section \<open>Sensor data routes\<close>

text \<open>\<^verbatim>\<open>req.query.limit || 50\<close>: a missing or empty parameter gives 50.\<close>

fun limit_or_50 :: "param option \<Rightarrow> param" where
  "limit_or_50 None = IntText 50"
| "limit_or_50 (Some (OtherText s)) = (if s = [] then IntText 50 else OtherText s)"
| "limit_or_50 (Some (IntText n)) = IntText n"

text \<open>\<^verbatim>\<open>GET /api/sensor-data/:deviceId\<close>.\<close>

definition get_sensor_data ::
  "string \<Rightarrow> nat \<Rightarrow> db \<Rightarrow> auth_header \<Rightarrow> string \<Rightarrow> param option \<Rightarrow> response" where
  "get_sensor_data secret now d h deviceId query_limit =
     (case authenticateToken secret now h of
        Inl rejected \<Rightarrow> rejected
      | Inr user \<Rightarrow>
          (let limit = limit_or_50 query_limit
           in case find_device d deviceId (c_id user) of
                None \<Rightarrow> Resp 404 (Error ''Device not found'')
              | Some device \<Rightarrow>
                  (case select_sensor_data d deviceId limit of
                     Inl err \<Rightarrow> Resp 500 (Error ''Error fetching sensor data'')
                   | Inr data \<Rightarrow> Resp 200 (SensorRows data))))"

text \<open>
  \<^verbatim>\<open>POST /api/demo/generate-data/:deviceId\<close>. The three readings come from
  \<^verbatim>\<open>Math.random\<close>; they are arguments here.
\<close>

definition post_demo_generate_data ::
  "string \<Rightarrow> nat \<Rightarrow> db \<Rightarrow> auth_header \<Rightarrow> string \<Rightarrow> string \<Rightarrow> string \<Rightarrow> string \<Rightarrow> db \<times> response" where
  "post_demo_generate_data secret now d h deviceId temperature humidity pressure =
     (case authenticateToken secret now h of
        Inl rejected \<Rightarrow> (d, rejected)
      | Inr user \<Rightarrow>
          (case insert_sensor_data d deviceId temperature humidity pressure now of
             Inl err \<Rightarrow> (d, Resp 500 (Error ''Error generating data''))
           | Inr d' \<Rightarrow> (d', Resp 200 (Generated temperature humidity pressure))))"

section \<open>The lockout state of an account\<close>

text \<open>
  The state of an account as the login handler reads it from the row: locked when
  \<^verbatim>\<open>user.is_locked === 1\<close>, and otherwise active with the count
  \<^verbatim>\<open>user.failed_attempts || 0\<close>.
\<close>

datatype lock_state = ACTIVE int | LOCKED

definition account_state :: "db \<Rightarrow> user_row \<Rightarrow> lock_state" where
  "account_state d u =
     (if user_prop d u ''is_locked'' = Num 1 then LOCKED
      else ACTIVE (or_zero (user_prop d u ''failed_attempts'')))"

text \<open>The state of the account registered under an email, if there is one.\<close>

definition state_of :: "db \<Rightarrow> string \<Rightarrow> lock_state option" where
  "state_of d email = map_option (account_state d) (find_user_by_email d email)"

text \<open>The stored value of \<^verbatim>\<open>failed_attempts\<close> for the account registered under an email.\<close>

definition stored_counter :: "db \<Rightarrow> string \<Rightarrow> jsval option" where
  "stored_counter d email =
     map_option (\<lambda>u. user_prop d u ''failed_attempts'') (find_user_by_email d email)"


section \<open>Scenarios\<close>

text \<open>
  A stand-in for bcrypt, used only to run the scenarios below: the hash of \<open>p\<close> is the
  text \<open>$2a$10$\<close> followed by \<open>p\<close>, and comparing checks exactly that.
\<close>

definition example_hash :: "string \<Rightarrow> string option" where
  "example_hash p = Some (''$2a$10$'' @ p)"

definition example_compare :: "string \<Rightarrow> string \<Rightarrow> bool option" where
  "example_compare p h = Some (h = ''$2a$10$'' @ p)"

text \<open>The new database after \<open>alice\<close> has registered with the password \<open>P1\<close>.\<close>

definition alice_db :: db where
  "alice_db = fst (post_auth_register example_hash ''s3cret'' 1000 fresh_db
      \<lparr>rb_username = Some ''alice'', rb_email = Some ''alice@example.com'',
       rb_password = Some ''P1''\<rparr>)"

definition alice_login :: "string \<Rightarrow> db \<Rightarrow> db \<times> response" where
  "alice_login pw d = post_auth_login example_compare ''s3cret'' 2000 d
      \<lparr>lb_email = Some ''alice@example.com'', lb_password = Some pw\<rparr>"

text \<open>Three logins in a row with the wrong password \<open>X\<close>.\<close>

definition after_three_failures :: db where
  "after_three_failures =
     fst (alice_login ''X'' (fst (alice_login ''X'' (fst (alice_login ''X'' alice_db)))))"

text \<open>
  A database file whose \<^verbatim>\<open>users\<close> table already existed with two further columns,
  \<^verbatim>\<open>failed_attempts\<close> and \<^verbatim>\<open>is_locked\<close> (both with default 0), and holds the account of
  \<open>alice\<close> with the given values in them.
\<close>

definition alice_row :: "int option \<Rightarrow> int option \<Rightarrow> user_row" where
  "alice_row failed locked =
     \<lparr>u_id = 1, u_username = ''alice'', u_email = ''alice@example.com'',
      u_password = ''$2a$10$P1'', u_created_at = 1000,
      u_extra = [(''failed_attempts'', failed), (''is_locked'', locked)]\<rparr>"

definition lockout_db :: "int option \<Rightarrow> int option \<Rightarrow> db" where
  "lockout_db failed locked =
     \<lparr>users_extra = [(''failed_attempts'', Some 0), (''is_locked'', Some 0)],
      users = [alice_row failed locked],
      users_seq = 1, devices = [], devices_seq = 0, sensor_data = [], sensor_data_seq = 0\<rparr>"

text \<open>The header \<^verbatim>\<open>Bearer <token>\<close> with the token issued at a registration or login.\<close>

definition bearer :: "int \<Rightarrow> string \<Rightarrow> nat \<Rightarrow> auth_header" where
  "bearer ident username issued =
     Some [Opaque ''Bearer'', jwt_sign ident username ''s3cret'' expires_24h issued]"

text \<open>\<open>bob\<close> registers, \<open>carol\<close> registers, and \<open>bob\<close> adds the device \<open>dev-1\<close>.\<close>

definition bob_carol_db :: db where
  "bob_carol_db =
     fst (post_devices ''s3cret'' 1002
       (fst (post_auth_register example_hash ''s3cret'' 1001
          (fst (post_auth_register example_hash ''s3cret'' 1000 fresh_db
             \<lparr>rb_username = Some ''bob'', rb_email = Some ''bob@example.com'',
              rb_password = Some ''B1''\<rparr>))
          \<lparr>rb_username = Some ''carol'', rb_email = Some ''carol@example.com'',
           rb_password = Some ''C1''\<rparr>))
       (bearer 1 ''bob'' 1000)
       \<lparr>db_device_name = Some ''Greenhouse'', db_device_type = Some ''thermo'',
        db_device_id = Some ''dev-1''\<rparr>)"



section \<open>Running the scenarios\<close>

lemmas scenario_defs =
  post_auth_register_def post_auth_login_def example_hash_def example_compare_def
  insert_user_def fresh_db_def next_id_def find_user_by_email_def user_prop_def
  wrong_password_def correct_password_def update_users_def run_logged_def show_int_def
  show_nat.simps digit_def alice_login_def state_of_def account_state_def assign_def
  jwt_sign_def expires_24h_def authenticateToken_def post_devices_def insert_device_def
  bearer_def find_device_def get_sensor_data_def post_demo_generate_data_def
  insert_sensor_data_def select_sensor_data_def delete_devices_id_def delete_device_def
  alice_row_def lockout_db_def

lemma alice_db_rows:
  "alice_db =
     \<lparr>users_extra = [],
      users = [\<lparr>u_id = 1, u_username = ''alice'', u_email = ''alice@example.com'',
                u_password = ''$2a$10$P1'', u_created_at = 1000, u_extra = []\<rparr>],
      users_seq = 1, devices = [], devices_seq = 0, sensor_data = [], sensor_data_seq = 0\<rparr>"
  by (simp add: alice_db_def scenario_defs)

lemma alice_wrong_password:
  "alice_login ''X'' alice_db =
     (alice_db, Resp 401 (Error ''Invalid credentials. 2 attempts left.''))"
  unfolding alice_db_rows by (simp add: scenario_defs)

lemma bob_carol_db_rows:
  "bob_carol_db =
     \<lparr>users_extra = [],
      users = [\<lparr>u_id = 1, u_username = ''bob'', u_email = ''bob@example.com'',
                u_password = ''$2a$10$B1'', u_created_at = 1000, u_extra = []\<rparr>,
               \<lparr>u_id = 2, u_username = ''carol'', u_email = ''carol@example.com'',
                u_password = ''$2a$10$C1'', u_created_at = 1001, u_extra = []\<rparr>],
      users_seq = 2,
      devices = [\<lparr>d_id = 1, d_user_id = 1, d_device_name = ''Greenhouse'',
                  d_device_type = ''thermo'', d_device_id = ''dev-1'',
                  d_status = ''online'', d_created_at = 1002\<rparr>],
      devices_seq = 1, sensor_data = [], sensor_data_seq = 0\<rparr>"
  by (simp add: bob_carol_db_def scenario_defs)

section \<open>Facts about the store\<close>

lemma find_map_same_email:
  assumes "find (\<lambda>u. u_email u = e) xs = Some u" and "\<And>x. u_email (f x) = u_email x"
  shows "find (\<lambda>u. u_email u = e) (map f xs) = Some (f u)"
  using assms by (induction xs) (auto split: if_splits)

lemma u_email_assign: "u_email (assign sets u) = u_email u"
  by (simp add: assign_def)

lemma update_users_Inr:
  "update_users d sets i = Inr d' \<Longrightarrow>
     d' = d\<lparr>users := map (\<lambda>u. if u_id u = i then assign sets u else u) (users d)\<rparr>
     \<and> list_all (\<lambda>c. c \<in> set (map fst (users_extra d))) (map fst sets)"
  by (auto simp: update_users_def split: if_splits)

lemma update_users_Inl:
  "update_users d sets i = Inl e \<Longrightarrow>
     \<not> list_all (\<lambda>c. c \<in> set (map fst (users_extra d))) (map fst sets)"
  by (auto simp: update_users_def split: if_splits)

lemma find_user_update:
  assumes "find_user_by_email d email = Some user"
    and "update_users d sets (u_id user) = Inr d'"
  shows "find_user_by_email d' email = Some (assign sets user)"
proof -
  let ?f = "\<lambda>u. if u_id u = u_id user then assign sets u else u"
  have "find (\<lambda>u. u_email u = email) (map ?f (users d)) = Some (?f user)"
    using assms(1) unfolding find_user_by_email_def
    by (intro find_map_same_email) (auto simp: u_email_assign)
  then show ?thesis
    using update_users_Inr [OF assms(2)] by (simp add: find_user_by_email_def)
qed

lemma users_extra_update:
  "update_users d sets i = Inr d' \<Longrightarrow> users_extra d' = users_extra d"
  by (auto simp: update_users_def split: if_splits)

lemma not_locked_if_active:
  "account_state d user = ACTIVE count \<Longrightarrow>
     user_prop d user ''is_locked'' \<noteq> Num 1
     \<and> or_zero (user_prop d user ''failed_attempts'') = count"
  by (auto simp: account_state_def split: if_splits)

text \<open>What a login does on a table without the column \<^verbatim>\<open>failed_attempts\<close>, as the one that
  \<^verbatim>\<open>database.js\<close> creates.\<close>

lemma login_without_counter_column:
  assumes "''failed_attempts'' \<notin> set (map fst (users_extra d))"
  shows "fst (post_auth_login bcrypt_compare secret now d b) = d"
proof -
  have "update_users d ((''failed_attempts'', v) # rest) i = Inl NoSuchColumn" for v rest i
    using assms by (simp add: update_users_def)
  then show ?thesis
    by (auto simp: post_auth_login_def wrong_password_def correct_password_def run_logged_def
          Let_def split: option.splits prod.splits)
qed

text \<open>No account is read as locked from a table without the column \<^verbatim>\<open>is_locked\<close>, and
  every count is read as 0 from a table without the column \<^verbatim>\<open>failed_attempts\<close>.\<close>

lemma state_without_columns:
  assumes "users_extra d = []"
  shows "account_state d u = ACTIVE 0"
  using assms by (simp add: account_state_def user_prop_def)

text \<open>Registering and logging in do not change the columns of the table.\<close>

lemma register_keeps_columns:
  "users_extra (fst (post_auth_register bcrypt_hash secret now d b)) = users_extra d"
  by (auto simp: post_auth_register_def insert_user_def Let_def
        split: option.splits sum.splits prod.splits if_splits)

lemma login_keeps_columns:
  "users_extra (fst (post_auth_login bcrypt_compare secret now d b)) = users_extra d"
  by (auto simp: post_auth_login_def wrong_password_def correct_password_def run_logged_def
        update_users_def Let_def split: option.splits sum.splits prod.splits if_splits)

text \<open>What a wrong password does on a table that has both columns.\<close>

lemma wrong_password_with_both_columns:
  assumes cols: "''failed_attempts'' \<in> set (map fst (users_extra d))"
      "''is_locked'' \<in> set (map fst (users_extra d))"
    and user: "find_user_by_email d email = Some user"
    and st: "account_state d user = ACTIVE count"
  shows "state_of (fst (wrong_password d user)) email
           = Some (if count + 1 \<ge> 3 then LOCKED else ACTIVE (count + 1))"
proof -
  from not_locked_if_active [OF st]
  have nl: "user_prop d user ''is_locked'' \<noteq> Num 1"
    and c: "or_zero (user_prop d user ''failed_attempts'') = count" by auto
  show ?thesis
  proof (cases "count + 1 \<ge> 3")
    case True
    let ?sets = "[(''failed_attempts'', Some (count + 1)), (''is_locked'', Some 1)]"
    obtain d' where d': "update_users d ?sets (u_id user) = Inr d'"
      using cols by (simp add: update_users_def)
    have "account_state d' (assign ?sets user) = LOCKED"
      using cols by (simp add: account_state_def user_prop_def users_extra_update [OF d']
            assign_def update_conv')
    then show ?thesis
      using True c d' find_user_update [OF user d']
      by (simp add: wrong_password_def run_logged_def state_of_def)
  next
    case False
    let ?sets = "[(''failed_attempts'', Some (count + 1))]"
    obtain d' where d': "update_users d ?sets (u_id user) = Inr d'"
      using cols by (simp add: update_users_def)
    have "account_state d' (assign ?sets user) = ACTIVE (count + 1)"
      using cols nl False
      by (auto simp: account_state_def user_prop_def users_extra_update [OF d']
            assign_def update_conv' split: option.splits)
    then show ?thesis
      using False c d' find_user_update [OF user d']
      by (simp add: wrong_password_def run_logged_def state_of_def)
  qed
qed


text \<open>The same for the whole handler: on a table with both columns, a wrong password
  counts, and the third one in a row locks.\<close>

lemma failed_login_with_both_columns:
  assumes "''failed_attempts'' \<in> set (map fst (users_extra d))"
    and "''is_locked'' \<in> set (map fst (users_extra d))"
    and "find_user_by_email d email = Some user"
    and "account_state d user = ACTIVE count"
    and "bcrypt_compare password (u_password user) = Some False"
    and "email \<noteq> []" and "password \<noteq> []"
  shows "state_of (fst (post_auth_login bcrypt_compare secret now d
                          \<lparr>lb_email = Some email, lb_password = Some password\<rparr>)) email
           = Some (if count + 1 \<ge> 3 then LOCKED else ACTIVE (count + 1))"
proof -
  from not_locked_if_active [OF assms(4)]
  have "user_prop d user ''is_locked'' \<noteq> Num 1" by simp
  then have "post_auth_login bcrypt_compare secret now d
               \<lparr>lb_email = Some email, lb_password = Some password\<rparr> = wrong_password d user"
    using assms by (simp add: post_auth_login_def)
  then show ?thesis
    using wrong_password_with_both_columns [OF assms(1-4)] by simp
qed

section \<open>Claims\<close>

text \<open>
  Claim C8. For an account in state \<open>LOCKED\<close>, a login attempt (a request that carries an
  email and a password) is answered with the lockout error 403, whatever
  \<^verbatim>\<open>bcrypt.compare\<close> would say of the password, and leaves the database, and with it the
  account's stored state, as it was.
\<close>

theorem locked_account_login_rejected:
  assumes "find_user_by_email d email = Some user"
    and "account_state d user = LOCKED"
    and "email \<noteq> []" and "password \<noteq> []"
  shows "post_auth_login bcrypt_compare secret now d
           \<lparr>lb_email = Some email, lb_password = Some password\<rparr>
         = (d, Resp 403 (Error ''Account locked due to too many failed attempts.''))"
  using assms by (simp add: post_auth_login_def account_state_def split: if_splits)

theorem locked_account_login_rejected_witness:
  "find_user_by_email (lockout_db (Some 3) (Some 1)) ''alice@example.com''
     = Some (alice_row (Some 3) (Some 1))
   \<and> account_state (lockout_db (Some 3) (Some 1)) (alice_row (Some 3) (Some 1)) = LOCKED
   \<and> example_compare ''P1'' (u_password (alice_row (Some 3) (Some 1))) = Some True
   \<and> post_auth_login example_compare ''s3cret'' 2000 (lockout_db (Some 3) (Some 1))
        \<lparr>lb_email = Some ''alice@example.com'', lb_password = Some ''P1''\<rparr>
      = (lockout_db (Some 3) (Some 1),
         Resp 403 (Error ''Account locked due to too many failed attempts.''))"
proof -
  have f: "find_user_by_email (lockout_db (Some 3) (Some 1)) ''alice@example.com''
             = Some (alice_row (Some 3) (Some 1))"
    by (simp add: find_user_by_email_def lockout_db_def alice_row_def)
  have l: "account_state (lockout_db (Some 3) (Some 1)) (alice_row (Some 3) (Some 1)) = LOCKED"
    by (simp add: account_state_def user_prop_def lockout_db_def alice_row_def)
  have c: "example_compare ''P1'' (u_password (alice_row (Some 3) (Some 1))) = Some True"
    by (simp add: example_compare_def alice_row_def)
  show ?thesis
    using f l c
      locked_account_login_rejected [where d = "lockout_db (Some 3) (Some 1)"
        and email = "''alice@example.com''" and user = "alice_row (Some 3) (Some 1)"
        and password = "''P1''" and bcrypt_compare = example_compare
        and secret = "''s3cret''" and now = 2000]
    by simp
qed

text \<open>
  Claim C6. For an account in any state \<open>ACTIVE count\<close>, a login attempt with the correct
  password (one for which \<^verbatim>\<open>bcrypt.compare\<close> yields true) succeeds, with the token and the
  user in the response, and afterwards the state of the account is \<open>ACTIVE 0\<close>; where the
  table has the column \<^verbatim>\<open>failed_attempts\<close>, the value stored for the account is 0.
\<close>

theorem correct_password_resets_counter:
  assumes "find_user_by_email d email = Some user"
    and "account_state d user = ACTIVE count"
    and "bcrypt_compare password (u_password user) = Some True"
    and "email \<noteq> []" and "password \<noteq> []"
  shows "snd (post_auth_login bcrypt_compare secret now d
                \<lparr>lb_email = Some email, lb_password = Some password\<rparr>)
         = Resp 200 (Auth ''Login successful''
             (jwt_sign (u_id user) (u_username user) secret expires_24h now)
             (u_id user) (u_username user) (u_email user))
       \<and> state_of (fst (post_auth_login bcrypt_compare secret now d
                          \<lparr>lb_email = Some email, lb_password = Some password\<rparr>)) email
         = Some (ACTIVE 0)
       \<and> (''failed_attempts'' \<in> set (map fst (users_extra d)) \<longrightarrow>
            stored_counter (fst (post_auth_login bcrypt_compare secret now d
                                  \<lparr>lb_email = Some email, lb_password = Some password\<rparr>)) email
            = Some (Num 0))"
proof -
  from not_locked_if_active [OF assms(2)]
  have nl: "user_prop d user ''is_locked'' \<noteq> Num 1" by simp
  have eq: "post_auth_login bcrypt_compare secret now d
              \<lparr>lb_email = Some email, lb_password = Some password\<rparr>
            = correct_password secret now d user"
    using assms nl by (simp add: post_auth_login_def)
  let ?sets = "[(''failed_attempts'', Some 0)]"
  show ?thesis
  proof (cases "update_users d ?sets (u_id user)")
    case (Inl e)
    from update_users_Inl [OF Inl]
    have "''failed_attempts'' \<notin> set (map fst (users_extra d))" by simp
    then have "state_of d email = Some (ACTIVE 0)"
        and "''failed_attempts'' \<notin> set (map fst (users_extra d))"
      using assms(1) nl by (simp_all add: state_of_def account_state_def user_prop_def)
    then show ?thesis
      using Inl by (simp add: eq correct_password_def run_logged_def)
  next
    case (Inr d')
    from update_users_Inr [OF Inr]
    have col: "''failed_attempts'' \<in> set (map fst (users_extra d))" by simp
    have "account_state d' (assign ?sets user) = ACTIVE 0"
      using nl col
      by (auto simp: account_state_def user_prop_def users_extra_update [OF Inr]
            assign_def update_conv' split: if_splits option.splits)
    moreover have "user_prop d' (assign ?sets user) ''failed_attempts'' = Num 0"
      using col
      by (simp add: user_prop_def users_extra_update [OF Inr] assign_def update_conv')
    ultimately show ?thesis
      using Inr find_user_update [OF assms(1) Inr]
      by (simp add: eq correct_password_def run_logged_def state_of_def stored_counter_def)
  qed
qed

theorem correct_password_resets_counter_witness:
  "state_of alice_db ''alice@example.com'' = Some (ACTIVE 0)
   \<and> state_of (fst (alice_login ''P1'' alice_db)) ''alice@example.com'' = Some (ACTIVE 0)
   \<and> account_state (lockout_db (Some 2) (Some 0)) (alice_row (Some 2) (Some 0)) = ACTIVE 2
   \<and> snd (post_auth_login example_compare ''s3cret'' 2000 (lockout_db (Some 2) (Some 0))
            \<lparr>lb_email = Some ''alice@example.com'', lb_password = Some ''P1''\<rparr>)
      = Resp 200 (Auth ''Login successful'' (jwt_sign 1 ''alice'' ''s3cret'' expires_24h 2000)
          1 ''alice'' ''alice@example.com'')
   \<and> state_of (fst (post_auth_login example_compare ''s3cret'' 2000 (lockout_db (Some 2) (Some 0))
                      \<lparr>lb_email = Some ''alice@example.com'', lb_password = Some ''P1''\<rparr>))
         ''alice@example.com''
      = Some (ACTIVE 0)
   \<and> stored_counter (lockout_db (Some 2) (Some 0)) ''alice@example.com'' = Some (Num 2)
   \<and> stored_counter
         (fst (post_auth_login example_compare ''s3cret'' 2000 (lockout_db (Some 2) (Some 0))
                 \<lparr>lb_email = Some ''alice@example.com'', lb_password = Some ''P1''\<rparr>))
         ''alice@example.com''
      = Some (Num 0)"
proof -
  have f: "find_user_by_email (lockout_db (Some 2) (Some 0)) ''alice@example.com''
             = Some (alice_row (Some 2) (Some 0))"
    by (simp add: find_user_by_email_def lockout_db_def alice_row_def)
  have a: "account_state (lockout_db (Some 2) (Some 0)) (alice_row (Some 2) (Some 0)) = ACTIVE 2"
    by (simp add: account_state_def user_prop_def lockout_db_def alice_row_def)
  have c: "example_compare ''P1'' (u_password (alice_row (Some 2) (Some 0))) = Some True"
    by (simp add: example_compare_def alice_row_def)
  have r: "u_id (alice_row (Some 2) (Some 0)) = 1"
      "u_username (alice_row (Some 2) (Some 0)) = ''alice''"
      "u_email (alice_row (Some 2) (Some 0)) = ''alice@example.com''"
    by (simp_all add: alice_row_def)
  have k: "''failed_attempts'' \<in> set (map fst (users_extra (lockout_db (Some 2) (Some 0))))"
    by (simp add: lockout_db_def)
  have s: "stored_counter (lockout_db (Some 2) (Some 0)) ''alice@example.com'' = Some (Num 2)"
    by (simp add: stored_counter_def f) (simp add: user_prop_def lockout_db_def alice_row_def)
  let ?alice = "\<lparr>u_id = 1, u_username = ''alice'', u_email = ''alice@example.com'',
                  u_password = ''$2a$10$P1'', u_created_at = 1000, u_extra = []\<rparr>"
  have f0: "find_user_by_email alice_db ''alice@example.com'' = Some ?alice"
    by (simp add: find_user_by_email_def alice_db_rows)
  have a0: "account_state alice_db ?alice = ACTIVE 0"
    by (simp add: state_without_columns alice_db_rows)
  have c0: "example_compare ''P1'' (u_password ?alice) = Some True"
    by (simp add: example_compare_def)
  have s0: "state_of alice_db ''alice@example.com'' = Some (ACTIVE 0)"
    by (simp add: state_of_def f0 a0)
  have "state_of (fst (alice_login ''P1'' alice_db)) ''alice@example.com'' = Some (ACTIVE 0)"
    using f0 a0 c0
      correct_password_resets_counter [where d = alice_db
        and email = "''alice@example.com''" and user = ?alice
        and count = 0 and bcrypt_compare = example_compare and password = "''P1''"
        and secret = "''s3cret''" and now = 2000]
    by (simp add: alice_login_def)
  then show ?thesis
    using f a c k s s0
      correct_password_resets_counter [where d = "lockout_db (Some 2) (Some 0)"
        and email = "''alice@example.com''" and user = "alice_row (Some 2) (Some 0)"
        and count = 2 and bcrypt_compare = example_compare and password = "''P1''"
        and secret = "''s3cret''" and now = 2000]
    by (simp add: r)
qed

text \<open>
  Claim C7. The lifetime of a token is 24 hours (86400 seconds). Presenting the token issued
  for an identity before its expiry passes the middleware with the same identity; presenting
  it once the lifetime has elapsed fails with the expired-token error of the token service,
  which the middleware answers with 403.
\<close>

theorem token_round_trip:
  "expires_24h = 86400
   \<and> (now < issued + expires_24h \<longrightarrow>
        authenticateToken secret now
          (Some [scheme, jwt_sign ident username secret expires_24h issued])
        = Inr \<lparr>c_id = ident, c_username = username, c_iat = issued,
               c_exp = issued + expires_24h\<rparr>)
   \<and> (issued + expires_24h \<le> now \<longrightarrow>
        jwt_verify (jwt_sign ident username secret expires_24h issued) secret now = Inl EXPIRED
        \<and> authenticateToken secret now
            (Some [scheme, jwt_sign ident username secret expires_24h issued])
          = Inl (Resp 403 (Error ''Invalid or expired token'')))"
  by (simp add: expires_24h_def authenticateToken_def jwt_sign_def)

theorem token_round_trip_witness:
  "(2000::nat) < 1000 + expires_24h
   \<and> authenticateToken ''s3cret'' 2000 (bearer 1 ''alice'' 1000)
     = Inr \<lparr>c_id = 1, c_username = ''alice'', c_iat = 1000, c_exp = 1000 + expires_24h\<rparr>
   \<and> 1000 + expires_24h \<le> (87400::nat)
   \<and> jwt_verify (jwt_sign 1 ''alice'' ''s3cret'' expires_24h 1000) ''s3cret'' 87400 = Inl EXPIRED
   \<and> authenticateToken ''s3cret'' 87400 (bearer 1 ''alice'' 1000)
     = Inl (Resp 403 (Error ''Invalid or expired token''))"
proof -
  have b: "(2000::nat) < 1000 + expires_24h" and a: "1000 + expires_24h \<le> (87400::nat)"
    by (simp_all add: expires_24h_def)
  show ?thesis
    using a b
      token_round_trip [of 2000 1000 "''s3cret''" "Opaque ''Bearer''" 1 "''alice''"]
      token_round_trip [of 87400 1000 "''s3cret''" "Opaque ''Bearer''" 1 "''alice''"]
    by (simp add: bearer_def)
qed



text \<open>
  Claim C10. Let the requester be authenticated as \<open>user\<close>, let the request name, by its
  id, a device record \<open>r\<close> owned by another account, and let ids be unique (the primary
  key). Then the delete leaves the whole database, and so the record, unchanged, and the
  answer is 404 \<open>Device not found\<close>: the answer given for an id \<open>q\<close> that no device has.
\<close>

theorem delete_of_foreign_device:
  assumes "authenticateToken secret now h = Inr user"
    and "distinct (map d_id (devices d))"
    and "r \<in> set (devices d)" and "id_matches p (d_id r)" and "d_user_id r \<noteq> c_id user"
    and "list_all (\<lambda>x. \<not> id_matches q (d_id x)) (devices d)"
  shows "delete_devices_id secret now d h p = (d, Resp 404 (Error ''Device not found''))
       \<and> delete_devices_id secret now d h q = (d, Resp 404 (Error ''Device not found''))"
proof -
  have none_p: "filter (\<lambda>x. id_matches p (d_id x) \<and> d_user_id x = c_id user) (devices d) = []"
  proof -
    have "\<not> (id_matches p (d_id x) \<and> d_user_id x = c_id user)" if "x \<in> set (devices d)" for x
    proof
      assume m: "id_matches p (d_id x) \<and> d_user_id x = c_id user"
      then have "d_id x = d_id r" using assms(4) by (cases p) auto
      then have "x = r" using assms(2,3) that by (auto simp: distinct_map inj_on_def)
      then show False using m assms(5) by simp
    qed
    then show ?thesis by (simp add: filter_empty_conv)
  qed
  have none_q: "filter (\<lambda>x. id_matches q (d_id x) \<and> d_user_id x = c_id user) (devices d) = []"
    using assms(6) by (auto simp: filter_empty_conv list_all_iff)
  have keep: "filter (\<lambda>x. \<not> P x) xs = xs" if "filter P xs = []" for P :: "device_row \<Rightarrow> bool" and xs
    using that by (induction xs) (auto split: if_splits)
  show ?thesis
    using assms(1) none_p none_q keep [OF none_p] keep [OF none_q]
    by (simp add: delete_devices_id_def delete_device_def)
qed

theorem delete_of_foreign_device_witness:
  "authenticateToken ''s3cret'' 3000 (bearer 2 ''carol'' 1001)
     = Inr \<lparr>c_id = 2, c_username = ''carol'', c_iat = 1001, c_exp = 1001 + expires_24h\<rparr>
   \<and> devices bob_carol_db
     = [\<lparr>d_id = 1, d_user_id = 1, d_device_name = ''Greenhouse'', d_device_type = ''thermo'',
         d_device_id = ''dev-1'', d_status = ''online'', d_created_at = 1002\<rparr>]
   \<and> delete_devices_id ''s3cret'' 3000 bob_carol_db (bearer 2 ''carol'' 1001) (IntText 1)
     = (bob_carol_db, Resp 404 (Error ''Device not found''))
   \<and> delete_devices_id ''s3cret'' 3000 bob_carol_db (bearer 2 ''carol'' 1001) (IntText 7)
     = (bob_carol_db, Resp 404 (Error ''Device not found''))"
proof -
  let ?carol = "\<lparr>c_id = 2, c_username = ''carol'', c_iat = 1001, c_exp = 1001 + expires_24h\<rparr>"
  let ?r = "\<lparr>d_id = 1, d_user_id = 1, d_device_name = ''Greenhouse'', d_device_type = ''thermo'',
         d_device_id = ''dev-1'', d_status = ''online'', d_created_at = 1002\<rparr>"
  have a: "authenticateToken ''s3cret'' 3000 (bearer 2 ''carol'' 1001) = Inr ?carol"
    by (simp add: authenticateToken_def bearer_def jwt_sign_def expires_24h_def)
  have d: "devices bob_carol_db = [?r]"
    by (simp add: bob_carol_db_rows)
  show ?thesis
    using a d
      delete_of_foreign_device [where secret = "''s3cret''" and now = 3000
        and h = "bearer 2 ''carol'' 1001" and user = ?carol and d = bob_carol_db and r = ?r
        and p = "IntText 1" and q = "IntText 7"]
    by simp
qed

text \<open>
  Claim C3, as amended. For an authenticated requester, reading the sensor data of a device
  is refused with 404 \<open>Device not found\<close> exactly when no device row has both that device
  identifier and the requester as owner: the device that does not exist and the device of
  another owner get the same answer, and there is no separate forbidden outcome.
\<close>

theorem sensor_data_access_decision:
  assumes "authenticateToken secret now h = Inr user"
  shows "(get_sensor_data secret now d h deviceId query_limit
            = Resp 404 (Error ''Device not found''))
         = (list_all (\<lambda>r. \<not> (d_device_id r = deviceId \<and> d_user_id r = c_id user)) (devices d))"
proof (cases "find_device d deviceId (c_id user)")
  case None
  then have "list_all (\<lambda>r. \<not> (d_device_id r = deviceId \<and> d_user_id r = c_id user)) (devices d)"
    by (simp add: find_device_def find_None_iff list_all_iff)
  then show ?thesis
    using assms None by (simp add: get_sensor_data_def)
next
  case (Some dev)
  then have "\<not> list_all (\<lambda>r. \<not> (d_device_id r = deviceId \<and> d_user_id r = c_id user)) (devices d)"
    by (auto simp: find_device_def find_Some_iff list_all_iff)
  then show ?thesis
    using assms Some by (simp add: get_sensor_data_def split: sum.splits)
qed


theorem sensor_data_access_decision_witness:
  "authenticateToken ''s3cret'' 3000 (bearer 2 ''carol'' 1001)
     = Inr \<lparr>c_id = 2, c_username = ''carol'', c_iat = 1001, c_exp = 1001 + expires_24h\<rparr>
   \<and> get_sensor_data ''s3cret'' 3000 bob_carol_db (bearer 2 ''carol'' 1001) ''dev-1'' None
     = Resp 404 (Error ''Device not found'')
   \<and> authenticateToken ''s3cret'' 3000 (bearer 1 ''bob'' 1000)
     = Inr \<lparr>c_id = 1, c_username = ''bob'', c_iat = 1000, c_exp = 1000 + expires_24h\<rparr>
   \<and> get_sensor_data ''s3cret'' 3000 bob_carol_db (bearer 1 ''bob'' 1000) ''dev-1'' None
     \<noteq> Resp 404 (Error ''Device not found'')"
proof -
  let ?carol = "\<lparr>c_id = 2, c_username = ''carol'', c_iat = 1001, c_exp = 1001 + expires_24h\<rparr>"
  let ?bob = "\<lparr>c_id = 1, c_username = ''bob'', c_iat = 1000, c_exp = 1000 + expires_24h\<rparr>"
  have c: "authenticateToken ''s3cret'' 3000 (bearer 2 ''carol'' 1001) = Inr ?carol"
    and b: "authenticateToken ''s3cret'' 3000 (bearer 1 ''bob'' 1000) = Inr ?bob"
    by (simp_all add: authenticateToken_def bearer_def jwt_sign_def expires_24h_def)
  have d: "devices bob_carol_db
     = [\<lparr>d_id = 1, d_user_id = 1, d_device_name = ''Greenhouse'', d_device_type = ''thermo'',
         d_device_id = ''dev-1'', d_status = ''online'', d_created_at = 1002\<rparr>]"
    by (simp add: bob_carol_db_rows)
  show ?thesis
    using c b
      sensor_data_access_decision [OF c, of bob_carol_db "''dev-1''" None]
      sensor_data_access_decision [OF b, of bob_carol_db "''dev-1''" None]
    by (simp add: d)
qed

text \<open>
  Claim C3 as stated fails: \<open>dev-1\<close> exists and is owned by \<open>bob\<close> (user 1), and
  \<open>carol\<close> (user 2) asking for it gets the very answer she gets for a device that does
  not exist.
\<close>

theorem foreign_device_not_forbidden:
  "devices bob_carol_db
     = [\<lparr>d_id = 1, d_user_id = 1, d_device_name = ''Greenhouse'', d_device_type = ''thermo'',
         d_device_id = ''dev-1'', d_status = ''online'', d_created_at = 1002\<rparr>]
   \<and> authenticateToken ''s3cret'' 3000 (bearer 2 ''carol'' 1001)
     = Inr \<lparr>c_id = 2, c_username = ''carol'', c_iat = 1001, c_exp = 1001 + expires_24h\<rparr>
   \<and> get_sensor_data ''s3cret'' 3000 bob_carol_db (bearer 2 ''carol'' 1001) ''dev-1'' None
     = Resp 404 (Error ''Device not found'')
   \<and> get_sensor_data ''s3cret'' 3000 bob_carol_db (bearer 2 ''carol'' 1001) ''no-such-device'' None
     = Resp 404 (Error ''Device not found'')"
  unfolding bob_carol_db_rows by (simp add: scenario_defs)

text \<open>
  Claim C4, as amended. A login for an email with no account is answered 401
  \<open>Invalid credentials\<close>. A login with a wrong password for an existing account in state
  \<open>ACTIVE count\<close> is answered 401 \<open>Invalid credentials. N attempts left.\<close> with
  \<open>N = 3 - (count + 1)\<close>, or 403 \<open>Account locked after 3 failed attempts.\<close> when
  \<open>count + 1 \<ge> 3\<close>; this answer always differs from the one for an unknown email.
\<close>

theorem login_failure_messages:
  assumes "email \<noteq> []" and "password \<noteq> []"
  shows "(find_user_by_email d email = None \<longrightarrow>
            post_auth_login bcrypt_compare secret now d
              \<lparr>lb_email = Some email, lb_password = Some password\<rparr>
            = (d, Resp 401 (Error ''Invalid credentials'')))
       \<and> (find_user_by_email d email = Some user \<and> account_state d user = ACTIVE count
            \<and> bcrypt_compare password (u_password user) = Some False \<longrightarrow>
            snd (post_auth_login bcrypt_compare secret now d
                   \<lparr>lb_email = Some email, lb_password = Some password\<rparr>)
            = (if count + 1 \<ge> 3 then Resp 403 (Error ''Account locked after 3 failed attempts.'')
               else Resp 401 (Error (''Invalid credentials. '' @ show_int (3 - (count + 1))
                                     @ '' attempts left.'')))
            \<and> snd (post_auth_login bcrypt_compare secret now d
                     \<lparr>lb_email = Some email, lb_password = Some password\<rparr>)
              \<noteq> Resp 401 (Error ''Invalid credentials''))"
proof (intro conjI impI)
  assume "find_user_by_email d email = None"
  then show "post_auth_login bcrypt_compare secret now d
              \<lparr>lb_email = Some email, lb_password = Some password\<rparr>
            = (d, Resp 401 (Error ''Invalid credentials''))"
    using assms by (simp add: post_auth_login_def)
next
  assume h: "find_user_by_email d email = Some user \<and> account_state d user = ACTIVE count
            \<and> bcrypt_compare password (u_password user) = Some False"
  from h not_locked_if_active [of d user count]
  have nl: "user_prop d user ''is_locked'' \<noteq> Num 1"
    and c: "or_zero (user_prop d user ''failed_attempts'') = count" by auto
  have eq: "post_auth_login bcrypt_compare secret now d
              \<lparr>lb_email = Some email, lb_password = Some password\<rparr> = wrong_password d user"
    using assms h nl by (simp add: post_auth_login_def)
  show r: "snd (post_auth_login bcrypt_compare secret now d
                   \<lparr>lb_email = Some email, lb_password = Some password\<rparr>)
            = (if count + 1 \<ge> 3 then Resp 403 (Error ''Account locked after 3 failed attempts.'')
               else Resp 401 (Error (''Invalid credentials. '' @ show_int (3 - (count + 1))
                                     @ '' attempts left.'')))"
    by (simp add: eq wrong_password_def c)
  have "length (''Invalid credentials. '' @ show_int (3 - (count + 1)) @ '' attempts left.'')
          \<noteq> length ''Invalid credentials''"
    by simp
  then have "''Invalid credentials. '' @ show_int (3 - (count + 1)) @ '' attempts left.''
          \<noteq> ''Invalid credentials''"
    by (metis (no_types))
  then show "snd (post_auth_login bcrypt_compare secret now d
                     \<lparr>lb_email = Some email, lb_password = Some password\<rparr>)
              \<noteq> Resp 401 (Error ''Invalid credentials'')"
    unfolding r by simp
qed

theorem login_failure_messages_witness:
  "find_user_by_email alice_db ''nobody@example.com'' = None
   \<and> post_auth_login example_compare ''s3cret'' 2000 alice_db
       \<lparr>lb_email = Some ''nobody@example.com'', lb_password = Some ''X''\<rparr>
     = (alice_db, Resp 401 (Error ''Invalid credentials''))
   \<and> account_state (lockout_db (Some 1) (Some 0)) (alice_row (Some 1) (Some 0)) = ACTIVE 1
   \<and> snd (post_auth_login example_compare ''s3cret'' 2000 (lockout_db (Some 1) (Some 0))
            \<lparr>lb_email = Some ''alice@example.com'', lb_password = Some ''X''\<rparr>)
     = Resp 401 (Error ''Invalid credentials. 1 attempts left.'')
   \<and> account_state (lockout_db (Some 2) (Some 0)) (alice_row (Some 2) (Some 0)) = ACTIVE 2
   \<and> snd (post_auth_login example_compare ''s3cret'' 2000 (lockout_db (Some 2) (Some 0))
            \<lparr>lb_email = Some ''alice@example.com'', lb_password = Some ''X''\<rparr>)
     = Resp 403 (Error ''Account locked after 3 failed attempts.'')"
proof -
  have n: "find_user_by_email alice_db ''nobody@example.com'' = None"
    by (simp add: alice_db_rows find_user_by_email_def)
  have f: "find_user_by_email (lockout_db fa lk) ''alice@example.com'' = Some (alice_row fa lk)"
    for fa lk by (simp add: find_user_by_email_def lockout_db_def alice_row_def)
  have a1: "account_state (lockout_db (Some 1) (Some 0)) (alice_row (Some 1) (Some 0)) = ACTIVE 1"
    and a2: "account_state (lockout_db (Some 2) (Some 0)) (alice_row (Some 2) (Some 0)) = ACTIVE 2"
    by (simp_all add: account_state_def user_prop_def lockout_db_def alice_row_def)
  have c: "example_compare ''X'' (u_password (alice_row fa lk)) = Some False" for fa lk
    by (simp add: example_compare_def alice_row_def)
  have s: "show_int 1 = ''1''"
    by (simp add: show_int_def show_nat.simps digit_def)
  show ?thesis
    using n f a1 a2 c
      login_failure_messages [where email = "''nobody@example.com''" and password = "''X''"
        and d = alice_db and bcrypt_compare = example_compare and secret = "''s3cret''"
        and now = 2000]
      login_failure_messages [where email = "''alice@example.com''" and password = "''X''"
        and d = "lockout_db (Some 1) (Some 0)" and user = "alice_row (Some 1) (Some 0)"
        and count = 1 and bcrypt_compare = example_compare and secret = "''s3cret''"
        and now = 2000]
      login_failure_messages [where email = "''alice@example.com''" and password = "''X''"
        and d = "lockout_db (Some 2) (Some 0)" and user = "alice_row (Some 2) (Some 0)"
        and count = 2 and bcrypt_compare = example_compare and secret = "''s3cret''"
        and now = 2000]
    by (simp add: s)
qed

text \<open>
  Claim C4 as stated fails: on the same database and with the same password, the answer for
  an email without account differs from the answer for the email of \<open>alice\<close>.
\<close>

theorem unknown_email_distinguishable:
  "snd (post_auth_login example_compare ''s3cret'' 2000 alice_db
          \<lparr>lb_email = Some ''nobody@example.com'', lb_password = Some ''X''\<rparr>)
     = Resp 401 (Error ''Invalid credentials'')
   \<and> snd (post_auth_login example_compare ''s3cret'' 2000 alice_db
            \<lparr>lb_email = Some ''alice@example.com'', lb_password = Some ''X''\<rparr>)
     = Resp 401 (Error ''Invalid credentials. 2 attempts left.'')
   \<and> snd (post_auth_login example_compare ''s3cret'' 2000 alice_db
            \<lparr>lb_email = Some ''nobody@example.com'', lb_password = Some ''X''\<rparr>)
     \<noteq> snd (post_auth_login example_compare ''s3cret'' 2000 alice_db
              \<lparr>lb_email = Some ''alice@example.com'', lb_password = Some ''X''\<rparr>)"
  unfolding alice_db_rows by (simp add: scenario_defs)


text \<open>
  Claim C9, as amended. Without a token the middleware answers 401
  \<open>Access token required\<close>. For a token whose signature does not match and for a token
  past its expiry it gives one and the same answer, 403 \<open>Invalid or expired token\<close>. The
  first answer differs from the second.
\<close>

theorem authenticateToken_failures:
  "(second_piece h = None \<longrightarrow>
      authenticateToken secret now h = Inl (Resp 401 (Error ''Access token required'')))
   \<and> (k \<noteq> secret \<longrightarrow>
        jwt_verify (Signed c k) secret now = Inl INVALID_SIGNATURE
        \<and> authenticateToken secret now (Some [scheme, Signed c k])
          = Inl (Resp 403 (Error ''Invalid or expired token'')))
   \<and> (c_exp c \<le> now \<longrightarrow>
        jwt_verify (Signed c secret) secret now = Inl EXPIRED
        \<and> authenticateToken secret now (Some [scheme, Signed c secret])
          = Inl (Resp 403 (Error ''Invalid or expired token'')))
   \<and> Resp 401 (Error ''Access token required'') \<noteq> Resp 403 (Error ''Invalid or expired token'')"
  by (simp add: authenticateToken_def)

theorem authenticateToken_failures_witness:
  "authenticateToken ''s3cret'' 3000 None = Inl (Resp 401 (Error ''Access token required''))
   \<and> authenticateToken ''s3cret'' 3000 (Some [Opaque ''Bearer''])
     = Inl (Resp 401 (Error ''Access token required''))
   \<and> jwt_verify (Signed \<lparr>c_id = 1, c_username = ''alice'', c_iat = 1000, c_exp = 87400\<rparr>
          ''another key'') ''s3cret'' 3000 = Inl INVALID_SIGNATURE
   \<and> authenticateToken ''s3cret'' 3000
       (Some [Opaque ''Bearer'',
              Signed \<lparr>c_id = 1, c_username = ''alice'', c_iat = 1000, c_exp = 87400\<rparr>
                ''another key''])
     = Inl (Resp 403 (Error ''Invalid or expired token''))
   \<and> jwt_verify (Signed \<lparr>c_id = 1, c_username = ''alice'', c_iat = 1000, c_exp = 87400\<rparr>
          ''s3cret'') ''s3cret'' 90000 = Inl EXPIRED
   \<and> authenticateToken ''s3cret'' 90000
       (Some [Opaque ''Bearer'',
              Signed \<lparr>c_id = 1, c_username = ''alice'', c_iat = 1000, c_exp = 87400\<rparr>
                ''s3cret''])
     = Inl (Resp 403 (Error ''Invalid or expired token''))"
  using
    authenticateToken_failures [where h = None and secret = "''s3cret''" and now = 3000
      and k = "''another key''" and scheme = "Opaque ''Bearer''"
      and c = "\<lparr>c_id = 1, c_username = ''alice'', c_iat = 1000, c_exp = 87400\<rparr>"]
    authenticateToken_failures [where h = "Some [Opaque ''Bearer'']" and secret = "''s3cret''"
      and now = 90000 and k = "''s3cret''" and scheme = "Opaque ''Bearer''"
      and c = "\<lparr>c_id = 1, c_username = ''alice'', c_iat = 1000, c_exp = 87400\<rparr>"]
    authenticateToken_failures [where h = "Some [Opaque ''Bearer'']" and secret = "''s3cret''"
      and now = 3000]
  by simp

text \<open>
  Claim C9 as stated fails: a token signed under another key and an expired token of the
  right key fail for different reasons in the token service, and the middleware gives the
  caller the same outcome for both.
\<close>

theorem invalid_and_expired_same_response:
  "jwt_verify (Signed \<lparr>c_id = 1, c_username = ''alice'', c_iat = 1000, c_exp = 87400\<rparr>
      ''another key'') ''s3cret'' 3000 = Inl INVALID_SIGNATURE
   \<and> jwt_verify (Signed \<lparr>c_id = 1, c_username = ''alice'', c_iat = 1000, c_exp = 87400\<rparr>
        ''s3cret'') ''s3cret'' 90000 = Inl EXPIRED
   \<and> authenticateToken ''s3cret'' 3000
       (Some [Opaque ''Bearer'',
              Signed \<lparr>c_id = 1, c_username = ''alice'', c_iat = 1000, c_exp = 87400\<rparr>
                ''another key''])
     = authenticateToken ''s3cret'' 90000
         (Some [Opaque ''Bearer'',
                Signed \<lparr>c_id = 1, c_username = ''alice'', c_iat = 1000, c_exp = 87400\<rparr>
                  ''s3cret''])"
  by (simp add: authenticateToken_def)

text \<open>
  Claim C1, evaluated on the scenario of the spec: \<open>alice\<close> registers with \<open>P1\<close> on a new
  database and logs in three times with the wrong password \<open>X\<close>. The database is then the
  one right after registration, the account is in state \<open>ACTIVE 0\<close>, and a fourth login
  with \<open>P1\<close> succeeds.
\<close>

theorem three_failures_do_not_lock:
  "after_three_failures = alice_db
   \<and> state_of after_three_failures ''alice@example.com'' = Some (ACTIVE 0)
   \<and> alice_login ''P1'' after_three_failures
     = (after_three_failures,
        Resp 200 (Auth ''Login successful'' (jwt_sign 1 ''alice'' ''s3cret'' expires_24h 2000)
          1 ''alice'' ''alice@example.com''))"
proof -
  have t: "after_three_failures = alice_db"
    by (simp add: after_three_failures_def alice_wrong_password)
  show ?thesis
    unfolding t unfolding alice_db_rows by (simp add: scenario_defs)
qed

text \<open>
  Claim C5, evaluated on the account of \<open>alice\<close> right after registration (state
  \<open>ACTIVE 0\<close>): a login with a wrong password reports 2 attempts left and leaves the
  database as it was, so the state stays \<open>ACTIVE 0\<close>, and a second wrong password reports 2
  attempts left again.
\<close>

theorem failed_attempt_not_counted:
  "state_of alice_db ''alice@example.com'' = Some (ACTIVE 0)
   \<and> alice_login ''X'' alice_db
     = (alice_db, Resp 401 (Error ''Invalid credentials. 2 attempts left.''))
   \<and> state_of (fst (alice_login ''X'' alice_db)) ''alice@example.com'' = Some (ACTIVE 0)
   \<and> alice_login ''X'' (fst (alice_login ''X'' alice_db))
     = (alice_db, Resp 401 (Error ''Invalid credentials. 2 attempts left.''))"
  unfolding alice_db_rows by (simp add: scenario_defs)

text \<open>
  Claim C2, evaluated: \<open>dev-1\<close> is owned by \<open>bob\<close> (user 1); \<open>carol\<close> (user 2) posts
  generated data for it and the row is written, with answer 200, although her read of the
  same device is refused.
\<close>

theorem generate_data_without_ownership_check:
  "devices bob_carol_db
     = [\<lparr>d_id = 1, d_user_id = 1, d_device_name = ''Greenhouse'', d_device_type = ''thermo'',
         d_device_id = ''dev-1'', d_status = ''online'', d_created_at = 1002\<rparr>]
   \<and> authenticateToken ''s3cret'' 3000 (bearer 2 ''carol'' 1001)
     = Inr \<lparr>c_id = 2, c_username = ''carol'', c_iat = 1001, c_exp = 1001 + expires_24h\<rparr>
   \<and> post_demo_generate_data ''s3cret'' 3000 bob_carol_db (bearer 2 ''carol'' 1001)
       ''dev-1'' ''21.50'' ''55.00'' ''1001.25''
     = (bob_carol_db\<lparr>sensor_data :=
            [\<lparr>s_id = 1, s_device_id = ''dev-1'', s_temperature = ''21.50'',
              s_humidity = ''55.00'', s_pressure = ''1001.25'', s_timestamp = 3000\<rparr>],
          sensor_data_seq := 1\<rparr>,
        Resp 200 (Generated ''21.50'' ''55.00'' ''1001.25''))
   \<and> get_sensor_data ''s3cret'' 3000 bob_carol_db (bearer 2 ''carol'' 1001) ''dev-1'' None
     = Resp 404 (Error ''Device not found'')"
  unfolding bob_carol_db_rows by (simp add: scenario_defs)

text \<open>Whatever a delete request names, the rows of other owners stay.\<close>

lemma delete_keeps_foreign_rows:
  assumes "authenticateToken secret now h = Inr user"
    and "r \<in> set (devices d)" and "d_user_id r \<noteq> c_id user"
  shows "r \<in> set (devices (fst (delete_devices_id secret now d h p)))"
  using assms by (simp add: delete_devices_id_def delete_device_def split: prod.splits)

end
